theory Spec2Isabelle
  imports Complex_Main
begin

section \<open>Python values used by the advisory code\<close>

text \<open>
  The two functions verified here are \<^verbatim>\<open>get_clothing_advice\<close> and
  \<^verbatim>\<open>generate_weather_speech\<close> of \<^verbatim>\<open>weather.py\<close>. Numbers are modelled as
  reals (a Python int or a finite float; every threshold the code compares with is an
  integer literal, so the comparisons are exact) and integers as \<open>int\<close>. A string is a
  list of 8-bit characters read as the code points U+0000 to U+00FF.
\<close>

subsection \<open>Strings\<close>

text \<open>
  \<^verbatim>\<open>str.lower()\<close> on the code points below 256: the ASCII capitals and the
  Latin-1 capitals U+00C0 to U+00DE (the multiplication sign U+00D7 apart) move up by 32,
  every other character stays.
\<close>

definition py_lower_char :: "char \<Rightarrow> char" where
  "py_lower_char c =
     (let n = (of_char c :: nat)
      in if (65 \<le> n \<and> n \<le> 90) \<or> (192 \<le> n \<and> n \<le> 222 \<and> n \<noteq> 215)
         then char_of (n + 32) else c)"

definition py_lower :: "string \<Rightarrow> string" where
  "py_lower s = map py_lower_char s"

text \<open>\<^verbatim>\<open>sub in s\<close> on strings: \<open>sub\<close> occurs in \<open>s\<close> as a contiguous block.\<close>

fun starts_with :: "'a list \<Rightarrow> 'a list \<Rightarrow> bool" where
  "starts_with [] s = True"
| "starts_with (x # xs) [] = False"
| "starts_with (x # xs) (y # ys) = (x = y \<and> starts_with xs ys)"

fun py_in :: "'a list \<Rightarrow> 'a list \<Rightarrow> bool" where
  "py_in sub [] = (sub = [])"
| "py_in sub (y # ys) = (starts_with sub (y # ys) \<or> py_in sub ys)"

text \<open>\<^verbatim>\<open>" ".join(xs)\<close>.\<close>

fun py_join_space :: "string list \<Rightarrow> string" where
  "py_join_space [] = []"
| "py_join_space [x] = x"
| "py_join_space (x # y # ys) = x @ '' '' @ py_join_space (y # ys)"

subsection \<open>Formatting a number with \<^verbatim>\<open>:.1f\<close>\<close>

text \<open>
  Python prints the decimal numeral with one fractional digit that is nearest to the exact
  value of the float, a tie going to the even last digit, and a minus sign for a negative
  value also when the digits are all zero (\<^verbatim>\<open>format(-0.04, ".1f")\<close> is
  \<^verbatim>\<open>-0.0\<close>). The float \<^verbatim>\<open>-0.0\<close>, infinities and NaN have no real number
  and are outside the model.
\<close>

definition round_half_even :: "real \<Rightarrow> int" where
  "round_half_even y =
     (let n = \<lfloor>y\<rfloor>; f = y - of_int n
      in if f < 1 / 2 then n
         else if 1 / 2 < f then n + 1
         else if even n then n else n + 1)"

definition digit_char :: "nat \<Rightarrow> char" where
  "digit_char d = ''0123456789'' ! d"

function decimal :: "nat \<Rightarrow> string" where
  "decimal n = (if n < 10 then [digit_char n] else decimal (n div 10) @ [digit_char (n mod 10)])"
  by pat_completeness auto
termination
  by (relation "measure (\<lambda>n. n)") auto

declare decimal.simps [simp del]

definition format_1f :: "real \<Rightarrow> string" where
  "format_1f x =
     (let q = nat (round_half_even (\<bar>x\<bar> * 10))
      in (if x < 0 then ''-'' else '''') @ decimal (q div 10) @ ''.'' @ [digit_char (q mod 10)])"

section \<open>The advisory engine: \<^verbatim>\<open>get_clothing_advice\<close>\<close>

text \<open>The two local variables of the function, \<^verbatim>\<open>advice\<close> and \<^verbatim>\<open>stay_indoor\<close>.\<close>

record advice_state =
  advice :: "string list"
  stay_indoor :: bool

subsection \<open>The string literals of the function\<close>

definition extreme_cold_line :: string where
  "extreme_cold_line = ''It's extremely cold outside. Wear heavy winter coat, thermal layers, gloves, scarf, and winter hat.''"

definition freezing_line :: string where
  "freezing_line = ''It's freezing cold. Wear a heavy jacket, warm layers, gloves, and a hat.''"

definition cold_line :: string where
  "cold_line = ''It's quite cold. Wear a warm jacket, long sleeves, and consider bringing a scarf.''"

definition cool_line :: string where
  "cool_line = ''It's cool outside. A light jacket or sweater would be comfortable.''"

definition mild_line :: string where
  "mild_line = ''The weather is mild. A light sweater or long sleeves should be perfect.''"

definition pleasant_line :: string where
  "pleasant_line = ''It's pleasant outside. Comfortable clothing like a t-shirt and light pants works well.''"

definition warm_line :: string where
  "warm_line = ''It's warm. Wear light, breathable clothing like shorts and t-shirts.''"

definition hot_line :: string where
  "hot_line = ''It's hot outside. Wear minimal, light-colored, breathable clothing and stay hydrated.''"

definition extreme_heat_line :: string where
  "extreme_heat_line = ''It's extremely hot! Wear very light clothing, stay hydrated, and avoid prolonged sun exposure.''"

definition umbrella_line :: string where
  "umbrella_line = ''Don't forget your umbrella and waterproof jacket!''"

definition snow_line :: string where
  "snow_line = ''Wear waterproof boots and be careful of slippery surfaces.''"

definition storm_line :: string where
  "storm_line = ''There's a storm warning. It's safer to stay indoors if possible!''"

definition fog_line :: string where
  "fog_line = ''Visibility is low. Drive carefully and wear visible clothing.''"

definition humidity_line :: string where
  "humidity_line = ''High humidity today. Wear moisture-wicking fabrics to stay comfortable.''"

subsection \<open>The three rule blocks, each a step on the local state\<close>

text \<open>The \<^verbatim>\<open>if temp < -10: ... elif ... else:\<close> chain.\<close>

definition temperature_rule :: "real \<Rightarrow> advice_state \<Rightarrow> advice_state" where
  "temperature_rule temp s =
     (if temp < -10 then s\<lparr>advice := advice s @ [extreme_cold_line], stay_indoor := True\<rparr>
      else if temp < 0 then s\<lparr>advice := advice s @ [freezing_line]\<rparr>
      else if temp < 10 then s\<lparr>advice := advice s @ [cold_line]\<rparr>
      else if temp < 15 then s\<lparr>advice := advice s @ [cool_line]\<rparr>
      else if temp < 20 then s\<lparr>advice := advice s @ [mild_line]\<rparr>
      else if temp < 25 then s\<lparr>advice := advice s @ [pleasant_line]\<rparr>
      else if temp < 30 then s\<lparr>advice := advice s @ [warm_line]\<rparr>
      else if temp < 35 then s\<lparr>advice := advice s @ [hot_line]\<rparr>
      else s\<lparr>advice := advice s @ [extreme_heat_line], stay_indoor := True\<rparr>)"

text \<open>The chain on \<^verbatim>\<open>condition_lower = condition.lower()\<close>; it has no \<^verbatim>\<open>else\<close>.\<close>

definition condition_rule :: "string \<Rightarrow> advice_state \<Rightarrow> advice_state" where
  "condition_rule condition s =
     (let condition_lower = py_lower condition
      in if py_in ''rain'' condition_lower \<or> py_in ''drizzle'' condition_lower
           then s\<lparr>advice := advice s @ [umbrella_line]\<rparr>
         else if py_in ''snow'' condition_lower
           then s\<lparr>advice := advice s @ [snow_line]\<rparr>
         else if py_in ''storm'' condition_lower \<or> py_in ''thunder'' condition_lower
           then s\<lparr>advice := advice s @ [storm_line], stay_indoor := True\<rparr>
         else if py_in ''fog'' condition_lower \<or> py_in ''mist'' condition_lower
           then s\<lparr>advice := advice s @ [fog_line]\<rparr>
         else s)"

text \<open>\<^verbatim>\<open>if humidity > 80: advice.append(...)\<close>.\<close>

definition humidity_rule :: "int \<Rightarrow> advice_state \<Rightarrow> advice_state" where
  "humidity_rule humidity s =
     (if humidity > 80 then s\<lparr>advice := advice s @ [humidity_line]\<rparr> else s)"

text \<open>\<^verbatim>\<open>advice = []\<close> and \<^verbatim>\<open>stay_indoor = False\<close>, the state every call starts from.\<close>

definition initial_state :: advice_state where
  "initial_state = \<lparr>advice = [], stay_indoor = False\<rparr>"

definition get_clothing_advice :: "real \<Rightarrow> string \<Rightarrow> int \<Rightarrow> string list \<times> bool" where
  "get_clothing_advice temp condition humidity =
     (let s1 = temperature_rule temp initial_state;
          s2 = condition_rule condition s1;
          s3 = humidity_rule humidity s2
      in (advice s3, stay_indoor s3))"

section \<open>The narration composer: \<^verbatim>\<open>generate_weather_speech\<close>\<close>

definition warning_sentence :: string where
  "warning_sentence = ''Warning! Weather conditions are extreme. It is strongly advised to stay indoors. ''"

definition wear_sentence :: string where
  "wear_sentence = ''Here's what you should wear. ''"

text \<open>The function builds \<^verbatim>\<open>speech_text\<close> by repeated \<^verbatim>\<open>+=\<close>.\<close>

definition generate_weather_speech ::
  "string \<Rightarrow> real \<Rightarrow> real \<Rightarrow> string \<Rightarrow> string list \<Rightarrow> bool \<Rightarrow> string" where
  "generate_weather_speech city temp feels_like condition advice_list indoor =
     (let speech_text = ''Weather report for '' @ city @ ''. '';
          speech_text = speech_text @ ''The current temperature is '' @ format_1f temp
                          @ '' degrees Celsius, '';
          speech_text = speech_text @ ''but it feels like '' @ format_1f feels_like
                          @ '' degrees. '';
          speech_text = speech_text @ ''The weather condition is '' @ condition @ ''. '';
          speech_text = (if indoor then speech_text @ warning_sentence else speech_text);
          speech_text = speech_text @ wear_sentence @ py_join_space advice_list
      in speech_text)"

section \<open>The two functions as the interpreter runs them\<close>

text \<open>
  Python checks types when an operation runs, and a function body may read what is around
  it. This second embedding of the two functions keeps both in view. A parameter holds any
  value of \<open>pyval\<close>, a string being a list of Unicode code points; every operation of the
  body returns either a value or the exception it raises; and every operation runs in a
  \<open>world\<close> that holds what the rest of \<^verbatim>\<open>weather.py\<close> reads and writes between
  calls: \<^verbatim>\<open>st.session_state\<close> and the clock behind \<^verbatim>\<open>datetime.now()\<close>.
\<close>

type_synonym ustring = "nat list"

definition ustr :: "string \<Rightarrow> ustring" where
  "ustr s = map of_char s"

datatype pyval =
  PyNone | PyBool bool | PyInt int | PyFloat real | PyStr ustring | PyList "pyval list"

datatype py_error = TypeError | AttributeError | ValueError

record world =
  session_state :: "string \<Rightarrow> pyval option"
  clock :: real

type_synonym 'a py = "world \<Rightarrow> (py_error + 'a) \<times> world"

definition py_return :: "'a \<Rightarrow> 'a py" where
  "py_return x = (\<lambda>w. (Inr x, w))"

definition py_raise :: "py_error \<Rightarrow> 'a py" where
  "py_raise e = (\<lambda>w. (Inl e, w))"

text \<open>One statement after another: an exception ends the run.\<close>

definition py_bind :: "'a py \<Rightarrow> ('a \<Rightarrow> 'b py) \<Rightarrow> 'b py" where
  "py_bind m f = (\<lambda>w. case m w of (Inl e, w') \<Rightarrow> (Inl e, w') | (Inr x, w') \<Rightarrow> f x w')"

subsection \<open>Operations of the file that depend on the world\<close>

text \<open>
  \<^verbatim>\<open>st.session_state.get(key, default)\<close>, an assignment to a key of
  \<^verbatim>\<open>st.session_state\<close>, and \<^verbatim>\<open>datetime.now()\<close>, as the page script uses them.
  Neither of the two functions calls them.
\<close>

definition session_state_get :: "string \<Rightarrow> pyval \<Rightarrow> pyval py" where
  "session_state_get key dflt =
     (\<lambda>w. (Inr (case session_state w key of None \<Rightarrow> dflt | Some v \<Rightarrow> v), w))"

definition session_state_set :: "string \<Rightarrow> pyval \<Rightarrow> unit py" where
  "session_state_set key v = (\<lambda>w. (Inr (), w\<lparr>session_state := (session_state w)(key \<mapsto> v)\<rparr>))"

definition datetime_now :: "real py" where
  "datetime_now = (\<lambda>w. (Inr (clock w), w))"

subsection \<open>Operations the two functions use\<close>

text \<open>The number a value stands for in arithmetic; \<^verbatim>\<open>bool\<close> is a subclass of \<^verbatim>\<open>int\<close>.\<close>

fun py_number :: "pyval \<Rightarrow> real option" where
  "py_number (PyBool b) = Some (if b then 1 else 0)"
| "py_number (PyInt i) = Some (of_int i)"
| "py_number (PyFloat x) = Some x"
| "py_number v = None"

text \<open>
  \<^verbatim>\<open>v < k\<close> and \<^verbatim>\<open>v > k\<close> with an integer literal \<open>k\<close>: defined on numbers,
  \<^verbatim>\<open>TypeError\<close> on \<^verbatim>\<open>None\<close>, strings and lists.
\<close>

definition py_lt_int :: "pyval \<Rightarrow> int \<Rightarrow> bool py" where
  "py_lt_int v k =
     (case py_number v of Some x \<Rightarrow> py_return (x < of_int k) | None \<Rightarrow> py_raise TypeError)"

definition py_gt_int :: "pyval \<Rightarrow> int \<Rightarrow> bool py" where
  "py_gt_int v k =
     (case py_number v of Some x \<Rightarrow> py_return (x > of_int k) | None \<Rightarrow> py_raise TypeError)"

text \<open>
  \<^verbatim>\<open>v.lower()\<close>: only a string has the method. What \<^verbatim>\<open>str.lower\<close> returns on all of
  Unicode is a table of the interpreter and not part of this repository, so it is the
  parameter \<open>lower\<close>.
\<close>

fun py_str_lower :: "(ustring \<Rightarrow> ustring) \<Rightarrow> pyval \<Rightarrow> pyval py" where
  "py_str_lower lower (PyStr s) = py_return (PyStr (lower s))"
| "py_str_lower lower v = py_raise AttributeError"

text \<open>
  \<^verbatim>\<open>k in v\<close> with a string literal \<open>k\<close>: substring search in a string, membership in a
  list, \<^verbatim>\<open>TypeError\<close> on a value that cannot be iterated.
\<close>

fun py_str_in :: "ustring \<Rightarrow> pyval \<Rightarrow> bool py" where
  "py_str_in k (PyStr s) = py_return (py_in k s)"
| "py_str_in k (PyList vs) = py_return (PyStr k \<in> set vs)"
| "py_str_in k v = py_raise TypeError"

text \<open>\<^verbatim>\<open>a or b\<close> on two tests: \<open>b\<close> runs only when \<open>a\<close> is false.\<close>

definition py_or :: "bool py \<Rightarrow> bool py \<Rightarrow> bool py" where
  "py_or a b = py_bind a (\<lambda>x. if x then py_return True else b)"

text \<open>The truth value \<^verbatim>\<open>if v:\<close> tests.\<close>

fun py_truth :: "pyval \<Rightarrow> bool" where
  "py_truth PyNone = False"
| "py_truth (PyBool b) = b"
| "py_truth (PyInt i) = (i \<noteq> 0)"
| "py_truth (PyFloat x) = (x \<noteq> 0)"
| "py_truth (PyStr s) = (s \<noteq> [])"
| "py_truth (PyList vs) = (vs \<noteq> [])"

text \<open>
  \<^verbatim>\<open>format(v, ".1f")\<close>: defined on numbers, \<^verbatim>\<open>ValueError\<close> on a string,
  \<^verbatim>\<open>TypeError\<close> on \<^verbatim>\<open>None\<close> and lists.
\<close>

fun py_format_1f :: "pyval \<Rightarrow> ustring py" where
  "py_format_1f (PyStr s) = py_raise ValueError"
| "py_format_1f v =
     (case py_number v of Some x \<Rightarrow> py_return (ustr (format_1f x)) | None \<Rightarrow> py_raise TypeError)"

text \<open>
  \<^verbatim>\<open>" ".join(v)\<close>: the items of a list must all be strings; a string is iterated
  character by character; anything else raises \<^verbatim>\<open>TypeError\<close>.
\<close>

fun ujoin_space :: "ustring list \<Rightarrow> ustring" where
  "ujoin_space [] = []"
| "ujoin_space [x] = x"
| "ujoin_space (x # y # ys) = x @ [32] @ ujoin_space (y # ys)"

fun py_str_items :: "pyval list \<Rightarrow> ustring list option" where
  "py_str_items [] = Some []"
| "py_str_items (PyStr s # vs) = map_option ((#) s) (py_str_items vs)"
| "py_str_items (v # vs) = None"

fun py_space_join :: "pyval \<Rightarrow> ustring py" where
  "py_space_join (PyList vs) =
     (case py_str_items vs of Some xs \<Rightarrow> py_return (ujoin_space xs) | None \<Rightarrow> py_raise TypeError)"
| "py_space_join (PyStr s) = py_return (ujoin_space (map (\<lambda>c. [c]) s))"
| "py_space_join v = py_raise TypeError"

subsection \<open>\<^verbatim>\<open>get_clothing_advice\<close>, statement by statement\<close>

definition temperature_rule_py :: "pyval \<Rightarrow> advice_state \<Rightarrow> advice_state py" where
  "temperature_rule_py temp s =
     py_bind (py_lt_int temp (-10)) (\<lambda>b.
       if b then py_return (s\<lparr>advice := advice s @ [extreme_cold_line], stay_indoor := True\<rparr>)
       else py_bind (py_lt_int temp 0) (\<lambda>b.
       if b then py_return (s\<lparr>advice := advice s @ [freezing_line]\<rparr>)
       else py_bind (py_lt_int temp 10) (\<lambda>b.
       if b then py_return (s\<lparr>advice := advice s @ [cold_line]\<rparr>)
       else py_bind (py_lt_int temp 15) (\<lambda>b.
       if b then py_return (s\<lparr>advice := advice s @ [cool_line]\<rparr>)
       else py_bind (py_lt_int temp 20) (\<lambda>b.
       if b then py_return (s\<lparr>advice := advice s @ [mild_line]\<rparr>)
       else py_bind (py_lt_int temp 25) (\<lambda>b.
       if b then py_return (s\<lparr>advice := advice s @ [pleasant_line]\<rparr>)
       else py_bind (py_lt_int temp 30) (\<lambda>b.
       if b then py_return (s\<lparr>advice := advice s @ [warm_line]\<rparr>)
       else py_bind (py_lt_int temp 35) (\<lambda>b.
       if b then py_return (s\<lparr>advice := advice s @ [hot_line]\<rparr>)
       else py_return
              (s\<lparr>advice := advice s @ [extreme_heat_line], stay_indoor := True\<rparr>)))))))))"

definition condition_rule_py ::
  "(ustring \<Rightarrow> ustring) \<Rightarrow> pyval \<Rightarrow> advice_state \<Rightarrow> advice_state py" where
  "condition_rule_py lower condition s =
     py_bind (py_str_lower lower condition) (\<lambda>condition_lower.
     py_bind (py_or (py_str_in (ustr ''rain'') condition_lower)
                    (py_str_in (ustr ''drizzle'') condition_lower)) (\<lambda>b.
       if b then py_return (s\<lparr>advice := advice s @ [umbrella_line]\<rparr>)
       else py_bind (py_str_in (ustr ''snow'') condition_lower) (\<lambda>b.
       if b then py_return (s\<lparr>advice := advice s @ [snow_line]\<rparr>)
       else py_bind (py_or (py_str_in (ustr ''storm'') condition_lower)
                           (py_str_in (ustr ''thunder'') condition_lower)) (\<lambda>b.
       if b then py_return (s\<lparr>advice := advice s @ [storm_line], stay_indoor := True\<rparr>)
       else py_bind (py_or (py_str_in (ustr ''fog'') condition_lower)
                           (py_str_in (ustr ''mist'') condition_lower)) (\<lambda>b.
       if b then py_return (s\<lparr>advice := advice s @ [fog_line]\<rparr>)
       else py_return s)))))"

definition humidity_rule_py :: "pyval \<Rightarrow> advice_state \<Rightarrow> advice_state py" where
  "humidity_rule_py humidity s =
     py_bind (py_gt_int humidity 80) (\<lambda>b.
       if b then py_return (s\<lparr>advice := advice s @ [humidity_line]\<rparr>) else py_return s)"

definition get_clothing_advice_py ::
  "(ustring \<Rightarrow> ustring) \<Rightarrow> pyval \<Rightarrow> pyval \<Rightarrow> pyval \<Rightarrow> (string list \<times> bool) py" where
  "get_clothing_advice_py lower temp condition humidity =
     py_bind (temperature_rule_py temp initial_state) (\<lambda>s1.
     py_bind (condition_rule_py lower condition s1) (\<lambda>s2.
     py_bind (humidity_rule_py humidity s2) (\<lambda>s3.
     py_return (advice s3, stay_indoor s3))))"

subsection \<open>\<^verbatim>\<open>generate_weather_speech\<close>, statement by statement\<close>

text \<open>
  The city and the condition are strings, as the specification declares them; the numbers,
  the advice list and the flag are untyped, since formatting, joining and testing them can
  each raise or depend on the value's type.
\<close>

definition generate_weather_speech_py ::
  "ustring \<Rightarrow> pyval \<Rightarrow> pyval \<Rightarrow> ustring \<Rightarrow> pyval \<Rightarrow> pyval \<Rightarrow> ustring py" where
  "generate_weather_speech_py city temp feels_like condition advice_list indoor =
     py_bind (py_return (ustr ''Weather report for '' @ city @ ustr ''. '')) (\<lambda>speech_text.
     py_bind (py_format_1f temp) (\<lambda>t.
     py_bind (py_return (speech_text @ ustr ''The current temperature is '' @ t
                           @ ustr '' degrees Celsius, '')) (\<lambda>speech_text.
     py_bind (py_format_1f feels_like) (\<lambda>f.
     py_bind (py_return (speech_text @ ustr ''but it feels like '' @ f
                           @ ustr '' degrees. '')) (\<lambda>speech_text.
     py_bind (py_return (speech_text @ ustr ''The weather condition is '' @ condition
                           @ ustr ''. '')) (\<lambda>speech_text.
     py_bind (py_return (if py_truth indoor then speech_text @ ustr warning_sentence
                         else speech_text)) (\<lambda>speech_text.
     py_bind (py_space_join advice_list) (\<lambda>joined.
     py_return (speech_text @ ustr wear_sentence @ joined)))))))))"

subsection \<open>Calling a function again and again\<close>

text \<open>
  \<open>n\<close> calls in a row, each in the world the call before left behind, and the list of
  what they returned or raised.
\<close>

fun py_calls :: "nat \<Rightarrow> 'a py \<Rightarrow> world \<Rightarrow> (py_error + 'a) list \<times> world" where
  "py_calls 0 m w = ([], w)"
| "py_calls (Suc n) m w =
     (case m w of (r, w') \<Rightarrow> (case py_calls n m w' of (rs, w'') \<Rightarrow> (r # rs, w'')))"

text \<open>A computation that neither reads nor changes the world.\<close>

definition py_pure :: "'a py \<Rightarrow> bool" where
  "py_pure m = (\<exists>r. \<forall>w. m w = (r, w))"

section \<open>What the specification says, for comparison with the code\<close>

subsection \<open>The table of temperature bands\<close>

datatype band =
  ExtremeCold | Freezing | Cold | Cool | Mild | Pleasant | Warm | Hot | ExtremeHeat

text \<open>The nine half-open intervals of the specification's table, lower bound inclusive.\<close>

fun spec_band_contains :: "band \<Rightarrow> real \<Rightarrow> bool" where
  "spec_band_contains ExtremeCold t = (t < -10)"
| "spec_band_contains Freezing t = (-10 \<le> t \<and> t < 0)"
| "spec_band_contains Cold t = (0 \<le> t \<and> t < 10)"
| "spec_band_contains Cool t = (10 \<le> t \<and> t < 15)"
| "spec_band_contains Mild t = (15 \<le> t \<and> t < 20)"
| "spec_band_contains Pleasant t = (20 \<le> t \<and> t < 25)"
| "spec_band_contains Warm t = (25 \<le> t \<and> t < 30)"
| "spec_band_contains Hot t = (30 \<le> t \<and> t < 35)"
| "spec_band_contains ExtremeHeat t = (35 \<le> t)"

text \<open>The table's rows from the lowest threshold to the highest.\<close>

definition spec_bands :: "band list" where
  "spec_bands = [ExtremeCold, Freezing, Cold, Cool, Mild, Pleasant, Warm, Hot, ExtremeHeat]"

text \<open>The line of the code that carries each row's intent, and the row's flag.\<close>

fun spec_band_line :: "band \<Rightarrow> string" where
  "spec_band_line ExtremeCold = extreme_cold_line"
| "spec_band_line Freezing = freezing_line"
| "spec_band_line Cold = cold_line"
| "spec_band_line Cool = cool_line"
| "spec_band_line Mild = mild_line"
| "spec_band_line Pleasant = pleasant_line"
| "spec_band_line Warm = warm_line"
| "spec_band_line Hot = hot_line"
| "spec_band_line ExtremeHeat = extreme_heat_line"

fun spec_band_stay_indoor :: "band \<Rightarrow> bool" where
  "spec_band_stay_indoor ExtremeCold = True"
| "spec_band_stay_indoor ExtremeHeat = True"
| "spec_band_stay_indoor b = False"

subsection \<open>The list of condition rules\<close>

text \<open>
  The specification's precedence list: the keywords of a rule, the line it emits, and
  whether it forces the flag. The first rule with a keyword inside the lowered
  description wins.
\<close>

definition spec_condition_rules :: "(string list \<times> string \<times> bool) list" where
  "spec_condition_rules =
     [([''rain'', ''drizzle''], umbrella_line, False),
      ([''snow''], snow_line, False),
      ([''storm'', ''thunder''], storm_line, True),
      ([''fog'', ''mist''], fog_line, False)]"

definition spec_condition_match :: "string \<Rightarrow> (string list \<times> string \<times> bool) option" where
  "spec_condition_match condition =
     List.find (\<lambda>(keywords, line, flag). list_ex (\<lambda>k. py_in k (py_lower condition)) keywords)
       spec_condition_rules"

definition temperature_lines :: "string list" where
  "temperature_lines =
     [extreme_cold_line, freezing_line, cold_line, cool_line, mild_line, pleasant_line,
      warm_line, hot_line, extreme_heat_line]"

definition condition_lines :: "string list" where
  "condition_lines = [umbrella_line, snow_line, storm_line, fog_line]"

subsection \<open>Reading a decimal numeral back\<close>

text \<open>The number a string of decimal digits denotes, to check \<open>decimal\<close> against.\<close>

definition digit_value :: "char \<Rightarrow> nat" where
  "digit_value c = of_char c - 48"

definition numeral_value :: "string \<Rightarrow> nat" where
  "numeral_value s = foldl (\<lambda>a c. 10 * a + digit_value c) 0 s"

section \<open>Facts about the string operations\<close>

lemma starts_with_iff: "starts_with p s \<longleftrightarrow> (\<exists>ss. s = p @ ss)"
  by (induction p s rule: starts_with.induct) auto

lemma py_in_iff: "py_in sub s \<longleftrightarrow> (\<exists>ps ss. s = ps @ sub @ ss)"
proof (induction s)
  case Nil
  then show ?case by simp
next
  case (Cons y ys)
  show ?case
  proof
    assume "py_in sub (y # ys)"
    then consider "starts_with sub (y # ys)" | "py_in sub ys" by auto
    then show "\<exists>ps ss. y # ys = ps @ sub @ ss"
    proof cases
      case 1
      then obtain ss where "y # ys = sub @ ss" by (auto simp: starts_with_iff)
      then have "y # ys = [] @ sub @ ss" by simp
      then show ?thesis by blast
    next
      case 2
      then obtain ps ss where "ys = ps @ sub @ ss" using Cons.IH by blast
      then have "y # ys = (y # ps) @ sub @ ss" by simp
      then show ?thesis by blast
    qed
  next
    assume "\<exists>ps ss. y # ys = ps @ sub @ ss"
    then obtain ps ss where e: "y # ys = ps @ sub @ ss" by blast
    show "py_in sub (y # ys)"
    proof (cases ps)
      case Nil
      with e have "starts_with sub (y # ys)" by (auto simp: starts_with_iff)
      then show ?thesis by simp
    next
      case (Cons p ps')
      with e have "ys = ps' @ sub @ ss" by simp
      then have "py_in sub ys" using Cons.IH by blast
      then show ?thesis by simp
    qed
  qed
qed

lemma py_in_lower_iff:
  "py_in k (py_lower c) \<longleftrightarrow> (\<exists>ps w ss. c = ps @ w @ ss \<and> py_lower w = k)"
proof
  assume "py_in k (py_lower c)"
  then obtain ps' ss' where "map py_lower_char c = ps' @ k @ ss'"
    by (auto simp: py_in_iff py_lower_def)
  then obtain ps r where c1: "c = ps @ r" and "map py_lower_char r = k @ ss'"
    by (metis map_eq_append_conv)
  then obtain w ss where "r = w @ ss" and "map py_lower_char w = k"
    by (metis map_eq_append_conv)
  with c1 show "\<exists>ps w ss. c = ps @ w @ ss \<and> py_lower w = k"
    by (auto simp: py_lower_def)
next
  assume "\<exists>ps w ss. c = ps @ w @ ss \<and> py_lower w = k"
  then obtain ps w ss where "c = ps @ w @ ss" and "py_lower w = k" by blast
  then have "py_lower c = py_lower ps @ k @ py_lower ss" by (auto simp: py_lower_def)
  then show "py_in k (py_lower c)" unfolding py_in_iff by blast
qed

lemma example_lower:
  "py_lower ''light rain during thunderstorm'' = ''light rain during thunderstorm''"
  "py_lower ''Clear'' = ''clear''"
  "py_lower ''Heavy Snow'' = ''heavy snow''"
  "py_lower ''LIGHT RAIN'' = ''light rain''"
  "py_lower ''light rain'' = ''light rain''"
  "py_lower ''Thunderstorm'' = ''thunderstorm''"
  "py_lower '''' = ''''"
  by code_simp+

lemma py_join_space_closed_form:
  "py_join_space xs = (case xs of [] \<Rightarrow> [] | x # r \<Rightarrow> x @ concat (map (\<lambda>y. '' '' @ y) r))"
  by (induction xs rule: py_join_space.induct) simp_all

section \<open>Facts about the number format\<close>

lemma round_half_even_near: "\<bar>real_of_int (round_half_even y) - y\<bar> \<le> 1 / 2"
  unfolding round_half_even_def Let_def by (auto; linarith)

lemma round_half_even_nonneg: "0 \<le> y \<Longrightarrow> 0 \<le> round_half_even y"
  unfolding round_half_even_def Let_def by auto

lemma format_1f_rounds:
  "\<exists>q. format_1f x =
        (if x < 0 then ''-'' else '''') @ decimal (q div 10) @ ''.'' @ [digit_char (q mod 10)]
      \<and> \<bar>real q / 10 - \<bar>x\<bar>\<bar> \<le> 1 / 20"
proof -
  define q where "q = nat (round_half_even (\<bar>x\<bar> * 10))"
  have "0 \<le> round_half_even (\<bar>x\<bar> * 10)"
    by (rule round_half_even_nonneg) simp
  then have "real q = real_of_int (round_half_even (\<bar>x\<bar> * 10))"
    by (simp add: q_def)
  with round_half_even_near [of "\<bar>x\<bar> * 10"] have "\<bar>real q - \<bar>x\<bar> * 10\<bar> \<le> 1 / 2"
    by simp
  then have "\<bar>real q / 10 - \<bar>x\<bar>\<bar> \<le> 1 / 20"
    by (simp add: abs_le_iff field_simps)
  moreover have "format_1f x =
        (if x < 0 then ''-'' else '''') @ decimal (q div 10) @ ''.'' @ [digit_char (q mod 10)]"
    by (simp add: format_1f_def q_def Let_def)
  ultimately show ?thesis by blast
qed

lemma format_examples:
  "format_1f 18 = ''18.0''"
  "format_1f 16.5 = ''16.5''"
  "format_1f 0.25 = ''0.2''"
  "format_1f 0.75 = ''0.8''"
  "format_1f (-0.04) = ''-0.0''"
  "format_1f (-10.25) = ''-10.2''"
  "format_1f 1234.5625 = ''1234.6''"
  by (simp_all add: format_1f_def round_half_even_def Let_def decimal.simps digit_char_def)

lemma digit_value_digit_char: "d < 10 \<Longrightarrow> digit_value (digit_char d) = d"
proof -
  assume "d < 10"
  then have "d = 0 \<or> d = 1 \<or> d = 2 \<or> d = 3 \<or> d = 4 \<or> d = 5 \<or> d = 6 \<or> d = 7
      \<or> d = 8 \<or> d = 9" by arith
  then show ?thesis
    by (elim disjE) (simp_all add: digit_value_def digit_char_def)
qed

lemma numeral_value_decimal: "numeral_value (decimal n) = n"
proof (induction n rule: decimal.induct)
  case (1 n)
  show ?case
  proof (cases "n < 10")
    case True
    then show ?thesis
      by (simp add: decimal.simps [of n] numeral_value_def digit_value_digit_char)
  next
    case False
    with 1 have "numeral_value (decimal (n div 10)) = n div 10" by simp
    with False show ?thesis
      by (simp add: decimal.simps [of n] numeral_value_def digit_value_digit_char)
  qed
qed

section \<open>Facts about the advice lines and the temperature bands\<close>

lemma lines_distinct: "distinct (temperature_lines @ condition_lines @ [humidity_line])"
  by (simp add: temperature_lines_def condition_lines_def extreme_cold_line_def freezing_line_def
      cold_line_def cool_line_def mild_line_def pleasant_line_def warm_line_def hot_line_def
      extreme_heat_line_def umbrella_line_def snow_line_def storm_line_def fog_line_def
      humidity_line_def)

lemma temperature_line_not_condition:
  "l \<in> set temperature_lines \<Longrightarrow> l \<notin> set condition_lines \<and> l \<noteq> humidity_line"
  using lines_distinct by auto

lemma storm_line_only_condition: "storm_line \<notin> set temperature_lines \<and> storm_line \<noteq> humidity_line
    \<and> storm_line \<noteq> umbrella_line"
  using lines_distinct by (auto simp: condition_lines_def)

lemma temperature_rule_band:
  "spec_band_contains b t \<Longrightarrow>
   temperature_rule t s =
     s\<lparr>advice := advice s @ [spec_band_line b],
       stay_indoor := (stay_indoor s \<or> spec_band_stay_indoor b)\<rparr>"
  by (cases b) (simp_all add: temperature_rule_def)

lemma spec_band_exists: "\<exists>b. spec_band_contains b t"
proof -
  consider "t < -10" | "-10 \<le> t \<and> t < 0" | "0 \<le> t \<and> t < 10" | "10 \<le> t \<and> t < 15"
    | "15 \<le> t \<and> t < 20" | "20 \<le> t \<and> t < 25" | "25 \<le> t \<and> t < 30" | "30 \<le> t \<and> t < 35"
    | "35 \<le> t" by linarith
  then show ?thesis
  proof cases
    case 1 then have "spec_band_contains ExtremeCold t" by simp then show ?thesis ..
  next
    case 2 then have "spec_band_contains Freezing t" by simp then show ?thesis ..
  next
    case 3 then have "spec_band_contains Cold t" by simp then show ?thesis ..
  next
    case 4 then have "spec_band_contains Cool t" by simp then show ?thesis ..
  next
    case 5 then have "spec_band_contains Mild t" by simp then show ?thesis ..
  next
    case 6 then have "spec_band_contains Pleasant t" by simp then show ?thesis ..
  next
    case 7 then have "spec_band_contains Warm t" by simp then show ?thesis ..
  next
    case 8 then have "spec_band_contains Hot t" by simp then show ?thesis ..
  next
    case 9 then have "spec_band_contains ExtremeHeat t" by simp then show ?thesis ..
  qed
qed

lemma spec_band_unique: "spec_band_contains b t \<Longrightarrow> spec_band_contains b' t \<Longrightarrow> b' = b"
  by (cases b; cases b'; simp)

lemma spec_band_first:
  "spec_band_contains b t \<Longrightarrow> List.find (\<lambda>b. spec_band_contains b t) spec_bands = Some b"
  by (cases b) (simp_all add: spec_bands_def)

lemma boundary_values:
  "temperature_rule (-10) initial_state = \<lparr>advice = [freezing_line], stay_indoor = False\<rparr>"
  "temperature_rule 0 initial_state = \<lparr>advice = [cold_line], stay_indoor = False\<rparr>"
  "temperature_rule 10 initial_state = \<lparr>advice = [cool_line], stay_indoor = False\<rparr>"
  "temperature_rule 15 initial_state = \<lparr>advice = [mild_line], stay_indoor = False\<rparr>"
  "temperature_rule 20 initial_state = \<lparr>advice = [pleasant_line], stay_indoor = False\<rparr>"
  "temperature_rule 25 initial_state = \<lparr>advice = [warm_line], stay_indoor = False\<rparr>"
  "temperature_rule 30 initial_state = \<lparr>advice = [hot_line], stay_indoor = False\<rparr>"
  "temperature_rule 35 initial_state = \<lparr>advice = [extreme_heat_line], stay_indoor = True\<rparr>"
  by (simp_all add: temperature_rule_def initial_state_def)

section \<open>Facts about the three rule blocks\<close>

lemma initial_state_simps: "advice initial_state = []" "stay_indoor initial_state = False"
  by (simp_all add: initial_state_def)

lemma temperature_rule_line:
  "\<exists>l. l \<in> set temperature_lines \<and> advice (temperature_rule t s) = advice s @ [l]"
  by (simp add: temperature_rule_def temperature_lines_def)

lemma temperature_rule_flag:
  "stay_indoor (temperature_rule t s) = (stay_indoor s \<or> t < -10 \<or> 35 \<le> t)"
  by (auto simp: temperature_rule_def)

lemma temperature_rule_extreme:
  "t < -10 \<Longrightarrow> advice (temperature_rule t initial_state) = [extreme_cold_line]"
  "35 \<le> t \<Longrightarrow> advice (temperature_rule t initial_state) = [extreme_heat_line]"
  by (simp_all add: temperature_rule_def initial_state_def)

lemma condition_rule_line:
  "advice (condition_rule c s) = advice s \<or>
   (\<exists>l. l \<in> set condition_lines \<and> advice (condition_rule c s) = advice s @ [l])"
  by (simp add: condition_rule_def condition_lines_def Let_def)

lemma condition_rule_flag:
  "stay_indoor (condition_rule c s) =
     (stay_indoor s \<or>
      ((py_in ''storm'' (py_lower c) \<or> py_in ''thunder'' (py_lower c)) \<and>
       \<not> py_in ''rain'' (py_lower c) \<and> \<not> py_in ''drizzle'' (py_lower c) \<and>
       \<not> py_in ''snow'' (py_lower c)))"
  by (auto simp: condition_rule_def Let_def)

lemma condition_rule_append:
  "advice (condition_rule c s) = advice s @ advice (condition_rule c initial_state)"
  by (simp add: condition_rule_def Let_def initial_state_def)

lemma condition_rule_spec:
  "condition_rule c s =
     (case spec_condition_match c of
        None \<Rightarrow> s
      | Some (keywords, line, flag) \<Rightarrow>
          s\<lparr>advice := advice s @ [line], stay_indoor := (stay_indoor s \<or> flag)\<rparr>)"
  by (simp add: condition_rule_def spec_condition_match_def spec_condition_rules_def Let_def)

lemma condition_rule_storm:
  "stay_indoor (condition_rule c initial_state) \<Longrightarrow>
   advice (condition_rule c initial_state) = [storm_line]"
  by (auto simp: condition_rule_def Let_def initial_state_def split: if_splits)

lemma rain_example_condition:
  "condition_rule ''light rain during thunderstorm'' s = s\<lparr>advice := advice s @ [umbrella_line]\<rparr>"
  by (simp add: condition_rule_def example_lower)

lemma humidity_rule_flag: "stay_indoor (humidity_rule h s) = stay_indoor s"
  by (simp add: humidity_rule_def)

lemma humidity_rule_advice:
  "advice (humidity_rule h s) = advice s @ (if h > 80 then [humidity_line] else [])"
  by (simp add: humidity_rule_def)

lemma get_clothing_advice_fst:
  "fst (get_clothing_advice t c h) =
     advice (temperature_rule t initial_state) @ advice (condition_rule c initial_state)
       @ (if h > 80 then [humidity_line] else [])"
  using condition_rule_append [of c "temperature_rule t initial_state"]
  by (simp add: get_clothing_advice_def Let_def humidity_rule_advice)

lemma get_clothing_advice_snd:
  "snd (get_clothing_advice t c h) =
     (stay_indoor (temperature_rule t initial_state) \<or> stay_indoor (condition_rule c initial_state))"
  by (simp add: get_clothing_advice_def Let_def humidity_rule_flag condition_rule_flag
      initial_state_def)

section \<open>Facts about the narration\<close>

lemma generate_weather_speech_sentences:
  "generate_weather_speech city temp feels_like condition advice_list indoor =
     concat
       ([''Weather report for '' @ city @ ''. '',
         ''The current temperature is '' @ format_1f temp @ '' degrees Celsius, ''
           @ ''but it feels like '' @ format_1f feels_like @ '' degrees. '',
         ''The weather condition is '' @ condition @ ''. '']
        @ (if indoor then [warning_sentence] else [])
        @ [wear_sentence @ py_join_space advice_list])"
  by (simp add: generate_weather_speech_def Let_def)

lemma paris_example:
  "generate_weather_speech ''Paris'' 18 16.5 ''light rain'' [cool_line, umbrella_line] False =
     ''Weather report for Paris. The current temperature is 18.0 degrees Celsius, but it feels like 16.5 degrees. The weather condition is light rain. Here's what you should wear. It's cool outside. A light jacket or sweater would be comfortable. Don't forget your umbrella and waterproof jacket!''"
  by (simp add: generate_weather_speech_def Let_def format_1f_def round_half_even_def
      decimal.simps digit_char_def wear_sentence_def cool_line_def umbrella_line_def)

lemma paris_no_warning:
  "\<not> py_in warning_sentence
      ''Weather report for Paris. The current temperature is 18.0 degrees Celsius, but it feels like 16.5 degrees. The weather condition is light rain. Here's what you should wear. It's cool outside. A light jacket or sweater would be comfortable. Don't forget your umbrella and waterproof jacket!''"
  by (simp add: warning_sentence_def)

lemma warning_present:
  "py_in warning_sentence (generate_weather_speech city temp feels_like condition advice_list True)"
proof -
  have "generate_weather_speech city temp feels_like condition advice_list True =
      (''Weather report for '' @ city @ ''. '' @ ''The current temperature is '' @ format_1f temp
        @ '' degrees Celsius, '' @ ''but it feels like '' @ format_1f feels_like @ '' degrees. ''
        @ ''The weather condition is '' @ condition @ ''. '')
      @ warning_sentence @ (wear_sentence @ py_join_space advice_list)"
    by (simp add: generate_weather_speech_def Let_def)
  then show ?thesis unfolding py_in_iff by blast
qed

section \<open>Facts about the functions as the interpreter runs them\<close>

lemma py_bind_return: "py_bind (py_return x) f = f x"
  by (simp add: py_bind_def py_return_def)

lemma py_bind_raise: "py_bind (py_raise e) f = py_raise e"
  by (simp add: py_bind_def py_raise_def)

lemma py_pure_return: "py_pure (py_return x)"
  by (simp add: py_pure_def py_return_def)

lemma py_pure_raise: "py_pure (py_raise e)"
  by (simp add: py_pure_def py_raise_def)

lemma py_pure_bind:
  assumes "py_pure m" and "\<And>x. py_pure (f x)"
  shows "py_pure (py_bind m f)"
proof -
  from assms(1) obtain r where r: "\<And>w. m w = (r, w)" by (auto simp: py_pure_def)
  show ?thesis
  proof (cases r)
    case (Inl e)
    with r have "\<And>w. py_bind m f w = (Inl e, w)" by (simp add: py_bind_def)
    then show ?thesis unfolding py_pure_def by blast
  next
    case (Inr x)
    from assms(2) [of x] obtain q where "\<And>w. f x w = (q, w)" by (auto simp: py_pure_def)
    with r Inr have "\<And>w. py_bind m f w = (q, w)" by (simp add: py_bind_def)
    then show ?thesis unfolding py_pure_def by blast
  qed
qed

lemma py_pure_if: "py_pure a \<Longrightarrow> py_pure b \<Longrightarrow> py_pure (if c then a else b)"
  by simp

lemma py_pure_lt_int: "py_pure (py_lt_int v k)"
  by (simp add: py_lt_int_def py_pure_return py_pure_raise split: option.split)

lemma py_pure_gt_int: "py_pure (py_gt_int v k)"
  by (simp add: py_gt_int_def py_pure_return py_pure_raise split: option.split)

lemma py_pure_str_lower: "py_pure (py_str_lower lower v)"
  by (cases v) (simp_all add: py_pure_return py_pure_raise)

lemma py_pure_str_in: "py_pure (py_str_in k v)"
  by (cases v) (simp_all add: py_pure_return py_pure_raise)

lemma py_pure_or: "py_pure a \<Longrightarrow> py_pure b \<Longrightarrow> py_pure (py_or a b)"
  unfolding py_or_def by (rule py_pure_bind) (simp_all add: py_pure_return)

lemma py_pure_format_1f: "py_pure (py_format_1f v)"
  by (cases v) (simp_all add: py_pure_return py_pure_raise)

lemma py_pure_space_join: "py_pure (py_space_join v)"
  by (cases v) (simp_all add: py_pure_return py_pure_raise split: option.split)

lemmas py_pure_intros =
  py_pure_bind py_pure_if py_pure_return py_pure_raise py_pure_lt_int py_pure_gt_int
  py_pure_str_lower py_pure_str_in py_pure_or py_pure_format_1f py_pure_space_join

lemma py_pure_temperature_rule_py: "py_pure (temperature_rule_py temp s)"
  unfolding temperature_rule_py_def by (intro py_pure_intros)

lemma py_pure_condition_rule_py: "py_pure (condition_rule_py lower condition s)"
  unfolding condition_rule_py_def by (intro py_pure_intros)

lemma py_pure_humidity_rule_py: "py_pure (humidity_rule_py humidity s)"
  unfolding humidity_rule_py_def by (intro py_pure_intros)

lemma py_pure_get_clothing_advice_py:
  "py_pure (get_clothing_advice_py lower temp condition humidity)"
  unfolding get_clothing_advice_py_def
  by (intro py_pure_intros py_pure_temperature_rule_py py_pure_condition_rule_py
      py_pure_humidity_rule_py)

lemma py_pure_generate_weather_speech_py:
  "py_pure (generate_weather_speech_py city temp feels_like condition advice_list indoor)"
  unfolding generate_weather_speech_py_def by (intro py_pure_intros)

lemma py_pure_run: "py_pure m \<Longrightarrow> m w = (fst (m w'), w)"
  by (auto simp: py_pure_def)

lemma py_calls_pure: "py_pure m \<Longrightarrow> py_calls n m w = (replicate n (fst (m w')), w)"
proof (induction n arbitrary: w)
  case 0
  then show ?case by simp
next
  case (Suc n)
  from Suc.prems have "m w = (fst (m w'), w)" by (rule py_pure_run)
  with Suc.IH [OF Suc.prems, of w] show ?case by simp
qed

lemma datetime_now_not_pure: "\<not> py_pure datetime_now"
proof
  assume "py_pure datetime_now"
  then have "datetime_now \<lparr>session_state = Map.empty, clock = 0\<rparr>
      = (fst (datetime_now \<lparr>session_state = Map.empty, clock = 1\<rparr>),
         \<lparr>session_state = Map.empty, clock = 0\<rparr>)"
    by (rule py_pure_run)
  then show False by (simp add: datetime_now_def)
qed

lemma session_state_calls_differ:
  "fst (py_calls 2
          (py_bind (session_state_get ''weather_loaded'' (PyBool False)) (\<lambda>v.
           py_bind (session_state_set ''weather_loaded'' (PyBool True)) (\<lambda>u. py_return v)))
          \<lparr>session_state = Map.empty, clock = 0\<rparr>)
   = [Inr (PyBool False), Inr (PyBool True)]"
  by (simp add: numeral_2_eq_2 py_bind_def py_return_def session_state_get_def
      session_state_set_def)

lemma temperature_rule_py_number:
  "py_number temp = Some x \<Longrightarrow> temperature_rule_py temp s = py_return (temperature_rule x s)"
  by (simp add: temperature_rule_py_def temperature_rule_def py_lt_int_def py_bind_return)

lemma temperature_rule_py_not_number:
  "py_number temp = None \<Longrightarrow> temperature_rule_py temp s = py_raise TypeError"
  by (simp add: temperature_rule_py_def py_lt_int_def py_bind_raise)

lemma py_or_return: "py_or (py_return a) (py_return b) = py_return (a \<or> b)"
  by (simp add: py_or_def py_bind_return)

lemma condition_rule_py_str:
  "condition_rule_py lower (PyStr c) s =
     py_return
       (if py_in (ustr ''rain'') (lower c) \<or> py_in (ustr ''drizzle'') (lower c)
          then s\<lparr>advice := advice s @ [umbrella_line]\<rparr>
        else if py_in (ustr ''snow'') (lower c)
          then s\<lparr>advice := advice s @ [snow_line]\<rparr>
        else if py_in (ustr ''storm'') (lower c) \<or> py_in (ustr ''thunder'') (lower c)
          then s\<lparr>advice := advice s @ [storm_line], stay_indoor := True\<rparr>
        else if py_in (ustr ''fog'') (lower c) \<or> py_in (ustr ''mist'') (lower c)
          then s\<lparr>advice := advice s @ [fog_line]\<rparr>
        else s)"
  by (simp add: condition_rule_py_def py_bind_return py_or_return)

lemma condition_rule_py_not_str:
  "condition_rule_py lower PyNone s = py_raise AttributeError"
  "condition_rule_py lower (PyBool b) s = py_raise AttributeError"
  "condition_rule_py lower (PyInt i) s = py_raise AttributeError"
  "condition_rule_py lower (PyFloat x) s = py_raise AttributeError"
  "condition_rule_py lower (PyList vs) s = py_raise AttributeError"
  by (simp_all add: condition_rule_py_def py_bind_raise)

lemma humidity_rule_py_number:
  "py_number humidity = Some x \<Longrightarrow>
   humidity_rule_py humidity s =
     py_return (if x > 80 then s\<lparr>advice := advice s @ [humidity_line]\<rparr> else s)"
  by (simp add: humidity_rule_py_def py_gt_int_def py_bind_return)

lemma humidity_rule_py_int: "humidity_rule_py (PyInt h) s = py_return (humidity_rule h s)"
  by (simp add: humidity_rule_py_number humidity_rule_def)

lemma humidity_rule_py_not_number:
  "py_number humidity = None \<Longrightarrow> humidity_rule_py humidity s = py_raise TypeError"
  by (simp add: humidity_rule_py_def py_gt_int_def py_bind_raise)

lemma get_clothing_advice_py_returns:
  assumes "py_number temp = Some x" and "py_number humidity = Some y"
  shows "\<exists>r. get_clothing_advice_py lower temp (PyStr c) humidity = py_return r"
proof -
  obtain s1 where "temperature_rule_py temp initial_state = py_return s1"
    using temperature_rule_py_number [OF assms(1)] by blast
  moreover obtain s2 where "condition_rule_py lower (PyStr c) s1 = py_return s2"
    using condition_rule_py_str by blast
  moreover obtain s3 where "humidity_rule_py humidity s2 = py_return s3"
    using humidity_rule_py_number [OF assms(2)] by blast
  ultimately have "get_clothing_advice_py lower temp (PyStr c) humidity =
      py_return (advice s3, stay_indoor s3)"
    by (simp add: get_clothing_advice_py_def py_bind_return)
  then show ?thesis by blast
qed

lemma starts_with_map: "inj f \<Longrightarrow> starts_with (map f k) (map f s) = starts_with k s"
  by (induction k s rule: starts_with.induct) (auto simp: inj_eq)

lemma py_in_map: "inj f \<Longrightarrow> py_in (map f k) (map f s) = py_in k s"
proof (induction s)
  case Nil
  then show ?case by simp
next
  case (Cons y ys)
  then show ?case using starts_with_map [of f k "y # ys"] by simp
qed

lemma py_in_ustr: "py_in (ustr k) (ustr s) = py_in k s"
  unfolding ustr_def by (rule py_in_map) (rule inj_of_char)

lemma condition_rule_py_agrees:
  "lower (ustr c) = ustr (py_lower c) \<Longrightarrow>
   condition_rule_py lower (PyStr (ustr c)) s = py_return (condition_rule c s)"
  by (simp add: condition_rule_py_str condition_rule_def py_in_ustr Let_def)

lemma get_clothing_advice_py_agrees:
  assumes "lower (ustr c) = ustr (py_lower c)"
  shows "get_clothing_advice_py lower (PyFloat t) (PyStr (ustr c)) (PyInt h) =
         py_return (get_clothing_advice t c h)"
  using assms
  by (simp add: get_clothing_advice_py_def temperature_rule_py_number
      condition_rule_py_agrees humidity_rule_py_int py_bind_return
      get_clothing_advice_def Let_def)

lemma get_clothing_advice_py_raises:
  "get_clothing_advice_py lower PyNone condition humidity = py_raise TypeError"
  "get_clothing_advice_py lower (PyStr x) condition humidity = py_raise TypeError"
  "get_clothing_advice_py lower (PyFloat t) PyNone humidity = py_raise AttributeError"
  "get_clothing_advice_py lower (PyFloat t) (PyInt i) humidity = py_raise AttributeError"
  "get_clothing_advice_py lower (PyFloat t) (PyStr c) PyNone = py_raise TypeError"
  "get_clothing_advice_py lower (PyFloat t) (PyStr c) (PyStr x) = py_raise TypeError"
  by (simp_all add: get_clothing_advice_py_def temperature_rule_py_not_number
      temperature_rule_py_number condition_rule_py_not_str condition_rule_py_str
      humidity_rule_py_not_number py_bind_raise py_bind_return)

lemma ujoin_space_ustr: "ujoin_space (map ustr xs) = ustr (py_join_space xs)"
  by (induction xs rule: py_join_space.induct) (simp_all add: ustr_def)

lemma py_str_items_strs: "py_str_items (map PyStr xs) = Some xs"
  by (induction xs) simp_all

lemma generate_weather_speech_py_agrees:
  "generate_weather_speech_py (ustr city) (PyFloat t) (PyFloat f) (ustr condition)
       (PyList (map (\<lambda>l. PyStr (ustr l)) advice_list)) (PyBool indoor) =
     py_return (ustr (generate_weather_speech city t f condition advice_list indoor))"
proof -
  have "py_str_items (map (\<lambda>l. PyStr (ustr l)) advice_list) = Some (map ustr advice_list)"
    using py_str_items_strs [of "map ustr advice_list"] by (simp add: comp_def)
  then show ?thesis
    by (simp add: generate_weather_speech_py_def generate_weather_speech_def py_bind_return
        ujoin_space_ustr Let_def) (simp add: ustr_def)
qed

lemma clear_lower: "py_lower ''clear'' = ''clear''"
  by code_simp

section \<open>The claims of the specification\<close>

text \<open>
  Claim C1. For every real temperature exactly one of the nine bands of the specification's
  table contains it; the \<^verbatim>\<open>elif\<close> chain emits the line and the flag of that band, which
  is also the first band of the table, read from the lowest threshold up, that contains the
  temperature; the band's line is the first advice line of the whole function. Each of the
  thresholds -10, 0, 10, 15, 20, 25, 30 and 35 falls into the band it opens: -10 gives the
  freezing line with the flag unset, 35 the extreme-heat line with the flag set.
\<close>
theorem temperature_band_total_exclusive:
  "(\<exists>!b. spec_band_contains b t) \<and>
   (\<forall>b. spec_band_contains b t \<longrightarrow>
      List.find (\<lambda>b'. spec_band_contains b' t) spec_bands = Some b \<and>
      temperature_rule t initial_state =
        \<lparr>advice = [spec_band_line b], stay_indoor = spec_band_stay_indoor b\<rparr> \<and>
      hd (fst (get_clothing_advice t c h)) = spec_band_line b) \<and>
   spec_band_contains Freezing (-10) \<and>
   temperature_rule (-10) initial_state = \<lparr>advice = [freezing_line], stay_indoor = False\<rparr> \<and>
   spec_band_contains Cold 0 \<and>
   temperature_rule 0 initial_state = \<lparr>advice = [cold_line], stay_indoor = False\<rparr> \<and>
   spec_band_contains Cool 10 \<and>
   temperature_rule 10 initial_state = \<lparr>advice = [cool_line], stay_indoor = False\<rparr> \<and>
   spec_band_contains Mild 15 \<and>
   temperature_rule 15 initial_state = \<lparr>advice = [mild_line], stay_indoor = False\<rparr> \<and>
   spec_band_contains Pleasant 20 \<and>
   temperature_rule 20 initial_state = \<lparr>advice = [pleasant_line], stay_indoor = False\<rparr> \<and>
   spec_band_contains Warm 25 \<and>
   temperature_rule 25 initial_state = \<lparr>advice = [warm_line], stay_indoor = False\<rparr> \<and>
   spec_band_contains Hot 30 \<and>
   temperature_rule 30 initial_state = \<lparr>advice = [hot_line], stay_indoor = False\<rparr> \<and>
   spec_band_contains ExtremeHeat 35 \<and>
   temperature_rule 35 initial_state = \<lparr>advice = [extreme_heat_line], stay_indoor = True\<rparr>"
proof -
  have u: "\<exists>!b. spec_band_contains b t"
    using spec_band_exists [of t] spec_band_unique [of _ t] by blast
  have g: "List.find (\<lambda>b'. spec_band_contains b' t) spec_bands = Some b \<and>
      temperature_rule t initial_state =
        \<lparr>advice = [spec_band_line b], stay_indoor = spec_band_stay_indoor b\<rparr> \<and>
      hd (fst (get_clothing_advice t c h)) = spec_band_line b"
    if b: "spec_band_contains b t" for b
  proof -
    have r: "temperature_rule t initial_state =
        \<lparr>advice = [spec_band_line b], stay_indoor = spec_band_stay_indoor b\<rparr>"
      using temperature_rule_band [OF b, of initial_state] by (simp add: initial_state_def)
    have "hd (fst (get_clothing_advice t c h)) = spec_band_line b"
      by (simp add: get_clothing_advice_fst r)
    with r spec_band_first [OF b] show ?thesis by simp
  qed
  from u g show ?thesis by (simp add: boundary_values)
qed

theorem temperature_band_total_exclusive_witness:
  "spec_band_contains Pleasant 22 \<and>
   List.find (\<lambda>b'. spec_band_contains b' 22) spec_bands = Some Pleasant \<and>
   temperature_rule 22 initial_state = \<lparr>advice = [pleasant_line], stay_indoor = False\<rparr> \<and>
   hd (fst (get_clothing_advice 22 ''Clear'' 50)) = pleasant_line"
proof -
  have b: "spec_band_contains Pleasant 22" by simp
  from temperature_band_total_exclusive [of 22 "''Clear''" 50] have
    "\<forall>b. spec_band_contains b 22 \<longrightarrow>
      List.find (\<lambda>b'. spec_band_contains b' 22) spec_bands = Some b \<and>
      temperature_rule 22 initial_state =
        \<lparr>advice = [spec_band_line b], stay_indoor = spec_band_stay_indoor b\<rparr> \<and>
      hd (fst (get_clothing_advice 22 ''Clear'' 50)) = spec_band_line b"
    by blast
  with b show ?thesis by fastforce
qed

text \<open>
  Claim C2, as stated, fails: with 20 degrees and the description
  \<^verbatim>\<open>light rain during thunderstorm\<close> the description contains \<^verbatim>\<open>storm\<close> and
  \<^verbatim>\<open>thunder\<close>, yet the rain branch of the chain is taken and the flag stays unset.
\<close>
theorem stay_indoor_iff_counterexample:
  "\<not> (snd (get_clothing_advice 20 ''light rain during thunderstorm'' 50) \<longleftrightarrow>
        ((20::real) < -10 \<or> (35::real) \<le> 20
         \<or> py_in ''storm'' (py_lower ''light rain during thunderstorm'')
         \<or> py_in ''thunder'' (py_lower ''light rain during thunderstorm'')))"
  by (simp add: get_clothing_advice_def temperature_rule_def rain_example_condition
      humidity_rule_def initial_state_def example_lower)

text \<open>
  Claim C2, amended. The returned flag is set exactly when the temperature is below -10, or
  at least 35, or the lowered description contains \<^verbatim>\<open>storm\<close> or \<^verbatim>\<open>thunder\<close>
  and none of \<^verbatim>\<open>rain\<close>, \<^verbatim>\<open>drizzle\<close> and \<^verbatim>\<open>snow\<close>, the keywords of the two
  branches tried before the storm branch. The humidity has no part in it.
\<close>
theorem stay_indoor_iff_amended:
  "(snd (get_clothing_advice t c h) \<longleftrightarrow>
      t < -10 \<or> 35 \<le> t \<or>
      ((py_in ''storm'' (py_lower c) \<or> py_in ''thunder'' (py_lower c)) \<and>
       \<not> py_in ''rain'' (py_lower c) \<and> \<not> py_in ''drizzle'' (py_lower c) \<and>
       \<not> py_in ''snow'' (py_lower c)))
   \<and> snd (get_clothing_advice t c h) = snd (get_clothing_advice t c h')"
  by (simp add: get_clothing_advice_snd temperature_rule_flag condition_rule_flag
      initial_state_def)

theorem stay_indoor_iff_amended_witness:
  "snd (get_clothing_advice 20 ''Thunderstorm'' 50) \<and>
   \<not> snd (get_clothing_advice 20 ''light rain during thunderstorm'' 50) \<and>
   snd (get_clothing_advice 36 ''Clear'' 50) \<and>
   \<not> snd (get_clothing_advice 20 ''Clear'' 95)"
  using stay_indoor_iff_amended [of 20 "''Thunderstorm''" 50 50]
    stay_indoor_iff_amended [of 20 "''light rain during thunderstorm''" 50 50]
    stay_indoor_iff_amended [of 36 "''Clear''" 50 50]
    stay_indoor_iff_amended [of 20 "''Clear''" 95 95]
  by (simp add: example_lower)

text \<open>
  Claim C3. The condition chain is the first-match search through the specification's
  precedence list (rain or drizzle, then snow, then storm or thunder, then fog or mist) on
  the lowered description, and appends at most one line. A keyword is found exactly when the
  description has a block of characters that lowers to it, so the search ignores case, and
  two descriptions that lower to the same text get the same result. For every temperature
  and humidity the description \<^verbatim>\<open>light rain during thunderstorm\<close> puts the umbrella
  line at index 1 and the storm line nowhere.
\<close>
theorem condition_first_match_wins:
  "condition_rule c s =
     (case spec_condition_match c of
        None \<Rightarrow> s
      | Some (keywords, line, flag) \<Rightarrow>
          s\<lparr>advice := advice s @ [line], stay_indoor := (stay_indoor s \<or> flag)\<rparr>)
   \<and> (py_in k (py_lower c) \<longleftrightarrow> (\<exists>ps w ss. c = ps @ w @ ss \<and> py_lower w = k))
   \<and> (py_lower c = py_lower c' \<longrightarrow> condition_rule c s = condition_rule c' s)
   \<and> length (advice (condition_rule c s)) \<le> length (advice s) + 1
   \<and> fst (get_clothing_advice t ''light rain during thunderstorm'' h) ! 1 = umbrella_line
   \<and> storm_line \<notin> set (fst (get_clothing_advice t ''light rain during thunderstorm'' h))"
proof (intro conjI impI)
  show "condition_rule c s =
     (case spec_condition_match c of
        None \<Rightarrow> s
      | Some (keywords, line, flag) \<Rightarrow>
          s\<lparr>advice := advice s @ [line], stay_indoor := (stay_indoor s \<or> flag)\<rparr>)"
    by (rule condition_rule_spec)
  show "py_in k (py_lower c) \<longleftrightarrow> (\<exists>ps w ss. c = ps @ w @ ss \<and> py_lower w = k)"
    by (rule py_in_lower_iff)
  show "condition_rule c s = condition_rule c' s" if "py_lower c = py_lower c'"
    using that by (simp add: condition_rule_def)
  show "length (advice (condition_rule c s)) \<le> length (advice s) + 1"
    using condition_rule_line [of c s] by auto
  obtain l where l: "l \<in> set temperature_lines"
    and a: "advice (temperature_rule t initial_state) = [l]"
    using temperature_rule_line [of t initial_state] by (auto simp: initial_state_def)
  have f: "fst (get_clothing_advice t ''light rain during thunderstorm'' h) =
      [l, umbrella_line] @ (if h > 80 then [humidity_line] else [])"
    by (simp add: get_clothing_advice_fst a rain_example_condition initial_state_simps)
  show "fst (get_clothing_advice t ''light rain during thunderstorm'' h) ! 1 = umbrella_line"
    by (simp add: f)
  show "storm_line \<notin> set (fst (get_clothing_advice t ''light rain during thunderstorm'' h))"
    using l storm_line_only_condition by (auto simp: f)
qed

theorem condition_first_match_wins_witness:
  "py_lower ''LIGHT RAIN'' = py_lower ''light rain'' \<and>
   condition_rule ''LIGHT RAIN'' initial_state = condition_rule ''light rain'' initial_state \<and>
   condition_rule ''light rain'' initial_state = \<lparr>advice = [umbrella_line], stay_indoor = False\<rparr> \<and>
   spec_condition_match ''Thunderstorm'' = Some ([''storm'', ''thunder''], storm_line, True) \<and>
   condition_rule ''Thunderstorm'' initial_state = \<lparr>advice = [storm_line], stay_indoor = True\<rparr> \<and>
   fst (get_clothing_advice 20 ''light rain during thunderstorm'' 50) ! 1 = umbrella_line"
  using condition_first_match_wins [of "''LIGHT RAIN''" initial_state "''rain''" "''light rain''" 20 50]
    condition_first_match_wins [of "''Thunderstorm''" initial_state "''storm''" "''Thunderstorm''" 20 50]
  by (simp add: example_lower spec_condition_match_def spec_condition_rules_def initial_state_def
      condition_rule_def)

text \<open>
  Claim C4. For every temperature and condition the moisture-wicking line is among the
  advice lines exactly when the humidity is above 80: not at 80, present at 81. The humidity
  rule leaves the flag as it finds it, and the returned flag does not depend on the humidity.
\<close>
theorem humidity_line_iff:
  "(humidity_line \<in> set (fst (get_clothing_advice t c h)) \<longleftrightarrow> 80 < h)
   \<and> humidity_line \<notin> set (fst (get_clothing_advice t c 80))
   \<and> humidity_line \<in> set (fst (get_clothing_advice t c 81))
   \<and> stay_indoor (humidity_rule h s) = stay_indoor s
   \<and> snd (get_clothing_advice t c h) = snd (get_clothing_advice t c h')"
proof -
  obtain l where l: "l \<in> set temperature_lines"
    and a: "advice (temperature_rule t initial_state) = [l]"
    using temperature_rule_line [of t initial_state] by (auto simp: initial_state_simps)
  have t: "humidity_line \<notin> set (advice (temperature_rule t initial_state))"
    using temperature_line_not_condition [OF l] by (auto simp: a)
  have c: "humidity_line \<notin> set (advice (condition_rule c initial_state))"
  proof -
    have "humidity_line \<notin> set condition_lines"
      using lines_distinct by auto
    then show ?thesis
      using condition_rule_line [of c initial_state] by (auto simp: initial_state_simps)
  qed
  have "humidity_line \<in> set (fst (get_clothing_advice t c k)) \<longleftrightarrow> 80 < k" for k
    using t c by (simp add: get_clothing_advice_fst)
  then show ?thesis
    by (simp add: humidity_rule_flag get_clothing_advice_snd)
qed

theorem humidity_line_iff_witness:
  "humidity_line \<in> set (fst (get_clothing_advice (-15) ''Heavy Snow'' 90)) \<and>
   fst (get_clothing_advice (-15) ''Heavy Snow'' 90) = [extreme_cold_line, snow_line, humidity_line] \<and>
   humidity_line \<notin> set (fst (get_clothing_advice 22 ''Clear'' 50)) \<and>
   fst (get_clothing_advice 22 ''Clear'' 50) = [pleasant_line]"
  using humidity_line_iff [of "-15" "''Heavy Snow''" 90 initial_state 90]
    humidity_line_iff [of 22 "''Clear''" 50 initial_state 50]
  by (simp add: get_clothing_advice_def temperature_rule_def condition_rule_def humidity_rule_def
      example_lower initial_state_def)

text \<open>
  Claim C5. The advice lines of every call are one temperature line, then no or one condition
  line, then no or one humidity line, in this order: between one and three lines, never
  none. Counted by kind, there is exactly one temperature line, at most one condition line
  and at most one humidity line.
\<close>
theorem advice_lines_shape:
  "\<exists>tl cl hl.
     fst (get_clothing_advice t c h) = [tl] @ cl @ hl \<and>
     tl \<in> set temperature_lines \<and>
     (cl = [] \<or> (\<exists>l. l \<in> set condition_lines \<and> cl = [l])) \<and>
     (hl = [] \<or> hl = [humidity_line]) \<and>
     fst (get_clothing_advice t c h) \<noteq> [] \<and>
     1 \<le> length (fst (get_clothing_advice t c h)) \<and>
     length (fst (get_clothing_advice t c h)) \<le> 3 \<and>
     length (filter (\<lambda>l. l \<in> set temperature_lines) (fst (get_clothing_advice t c h))) = 1 \<and>
     length (filter (\<lambda>l. l \<in> set condition_lines) (fst (get_clothing_advice t c h))) \<le> 1 \<and>
     length (filter (\<lambda>l. l = humidity_line) (fst (get_clothing_advice t c h))) \<le> 1"
proof -
  obtain tl where tl: "tl \<in> set temperature_lines"
    and a: "advice (temperature_rule t initial_state) = [tl]"
    using temperature_rule_line [of t initial_state] by (auto simp: initial_state_simps)
  define cl where "cl = advice (condition_rule c initial_state)"
  define hl where "hl = (if h > 80 then [humidity_line] else [])"
  have f: "fst (get_clothing_advice t c h) = [tl] @ cl @ hl"
    by (simp add: get_clothing_advice_fst a cl_def hl_def)
  have c: "cl = [] \<or> (\<exists>l. l \<in> set condition_lines \<and> cl = [l])"
    using condition_rule_line [of c initial_state] by (simp add: cl_def initial_state_simps)
  have h: "hl = [] \<or> hl = [humidity_line]"
    by (simp add: hl_def)
  have n1: "tl \<notin> set condition_lines" and n2: "tl \<noteq> humidity_line"
    using temperature_line_not_condition [OF tl] by simp_all
  have n3: "l \<notin> set temperature_lines" and n4: "l \<noteq> humidity_line"
    if "l \<in> set condition_lines" for l
    using that lines_distinct by auto
  have n5: "humidity_line \<notin> set temperature_lines" and n6: "humidity_line \<notin> set condition_lines"
    using lines_distinct by auto
  have k1: "length (filter (\<lambda>l. l \<in> set temperature_lines) ([tl] @ cl @ hl)) = 1"
    using tl c h n3 n5 by auto
  have k2: "length (filter (\<lambda>l. l \<in> set condition_lines) ([tl] @ cl @ hl)) \<le> 1"
    using n1 c h n6 by auto
  have k3: "length (filter (\<lambda>l. l = humidity_line) ([tl] @ cl @ hl)) \<le> 1"
    using n2 c h n4 by auto
  have k4: "length ([tl] @ cl @ hl) \<le> 3" using c h by auto
  show ?thesis
    using f tl c h k1 k2 k3 k4 by (intro exI [of _ tl] exI [of _ cl] exI [of _ hl]) simp
qed

theorem advice_lines_shape_witness:
  "fst (get_clothing_advice (-15) ''Heavy Snow'' 90) = [extreme_cold_line] @ [snow_line] @ [humidity_line] \<and>
   length (fst (get_clothing_advice (-15) ''Heavy Snow'' 90)) = 3 \<and>
   fst (get_clothing_advice 22 ''Clear'' 50) = [pleasant_line] @ [] @ []"
  using advice_lines_shape [of "-15" "''Heavy Snow''" 90] advice_lines_shape [of 22 "''Clear''" 50]
  by (simp add: get_clothing_advice_def temperature_rule_def condition_rule_def humidity_rule_def
      example_lower initial_state_def)

text \<open>
  Claim C6. None of the three rule blocks clears a flag that is set, whatever state it starts
  from; along the run of one call the flag after the temperature block implies the flag after
  the condition block, which implies the final one; and the returned flag is the disjunction
  of the flag the temperature block sets and the flag the condition block sets.
\<close>
theorem stay_indoor_monotonic:
  "(stay_indoor s \<longrightarrow> stay_indoor (temperature_rule t s)) \<and>
   (stay_indoor s \<longrightarrow> stay_indoor (condition_rule c s)) \<and>
   (stay_indoor s \<longrightarrow> stay_indoor (humidity_rule h s)) \<and>
   (let s1 = temperature_rule t initial_state;
        s2 = condition_rule c s1;
        s3 = humidity_rule h s2
    in (stay_indoor s1 \<longrightarrow> stay_indoor s2) \<and> (stay_indoor s2 \<longrightarrow> stay_indoor s3) \<and>
       snd (get_clothing_advice t c h) = stay_indoor s3) \<and>
   snd (get_clothing_advice t c h) =
     (stay_indoor (temperature_rule t initial_state) \<or> stay_indoor (condition_rule c initial_state))"
proof -
  have 1: "stay_indoor s \<longrightarrow> stay_indoor (temperature_rule t s)" for s
    by (simp add: temperature_rule_flag)
  have 2: "stay_indoor s \<longrightarrow> stay_indoor (condition_rule c s)" for s
    by (simp add: condition_rule_flag)
  have 3: "stay_indoor (humidity_rule h s) = stay_indoor s" for s
    by (rule humidity_rule_flag)
  have 4: "snd (get_clothing_advice t c h) =
      stay_indoor (humidity_rule h (condition_rule c (temperature_rule t initial_state)))"
    by (simp add: get_clothing_advice_def Let_def)
  show ?thesis
    using 1 2 3 4 get_clothing_advice_snd [of t c h] by (simp add: Let_def)
qed

theorem stay_indoor_monotonic_witness:
  "stay_indoor (temperature_rule (-15) initial_state) \<and>
   stay_indoor (condition_rule ''Heavy Snow'' (temperature_rule (-15) initial_state)) \<and>
   stay_indoor (humidity_rule 90 (condition_rule ''Heavy Snow'' (temperature_rule (-15) initial_state))) \<and>
   snd (get_clothing_advice (-15) ''Heavy Snow'' 90)"
proof -
  have a: "stay_indoor (temperature_rule (-15) initial_state)"
    by (simp add: temperature_rule_def)
  have b: "stay_indoor (condition_rule ''Heavy Snow'' (temperature_rule (-15) initial_state))"
    using a stay_indoor_monotonic [of "temperature_rule (-15) initial_state" 0 "''Heavy Snow''" 0]
    by blast
  have c: "stay_indoor (humidity_rule 90 (condition_rule ''Heavy Snow'' (temperature_rule (-15) initial_state)))"
    using b stay_indoor_monotonic
      [of "condition_rule ''Heavy Snow'' (temperature_rule (-15) initial_state)" 0 "''''" 90]
    by blast
  have d: "snd (get_clothing_advice (-15) ''Heavy Snow'' 90)"
    using a stay_indoor_monotonic [of initial_state "-15" "''Heavy Snow''" 90] by simp
  from a b c d show ?thesis by simp
qed

text \<open>
  Claim C7. The narration is the concatenation, in this order, of the city sentence, the
  temperature and feels-like sentence, the condition sentence, the warning sentence when
  and only when the flag was passed as true, and the closing sentence followed by the advice
  lines: the first line, then each further line after one space. Both numbers are printed
  with a sign, an integer part and one fractional digit, at most 0.05 away from the value.
  A true flag puts the warning sentence into the text. For Paris at 18.0 and 16.5 degrees
  with light rain and the flag false the text is the one below, has no warning sentence in
  it, and prints the numbers as \<^verbatim>\<open>18.0\<close> and \<^verbatim>\<open>16.5\<close>.
\<close>
theorem speech_sentences_in_order:
  "generate_weather_speech city temp feels_like condition advice_list indoor =
     concat
       ([''Weather report for '' @ city @ ''. '',
         ''The current temperature is '' @ format_1f temp @ '' degrees Celsius, ''
           @ ''but it feels like '' @ format_1f feels_like @ '' degrees. '',
         ''The weather condition is '' @ condition @ ''. '']
        @ (if indoor then [warning_sentence] else [])
        @ [wear_sentence @ py_join_space advice_list])
   \<and> (\<exists>q. format_1f temp =
          (if temp < 0 then ''-'' else '''') @ decimal (q div 10) @ ''.'' @ [digit_char (q mod 10)]
        \<and> \<bar>real q / 10 - \<bar>temp\<bar>\<bar> \<le> 1 / 20)
   \<and> (\<exists>q. format_1f feels_like =
          (if feels_like < 0 then ''-'' else '''') @ decimal (q div 10) @ ''.''
            @ [digit_char (q mod 10)]
        \<and> \<bar>real q / 10 - \<bar>feels_like\<bar>\<bar> \<le> 1 / 20)
   \<and> py_join_space advice_list =
       (case advice_list of [] \<Rightarrow> [] | x # r \<Rightarrow> x @ concat (map (\<lambda>y. '' '' @ y) r))
   \<and> (indoor \<longrightarrow>
        py_in warning_sentence
          (generate_weather_speech city temp feels_like condition advice_list indoor))
   \<and> generate_weather_speech ''Paris'' 18 16.5 ''light rain'' [cool_line, umbrella_line] False =
       ''Weather report for Paris. The current temperature is 18.0 degrees Celsius, but it feels like 16.5 degrees. The weather condition is light rain. Here's what you should wear. It's cool outside. A light jacket or sweater would be comfortable. Don't forget your umbrella and waterproof jacket!''
   \<and> \<not> py_in warning_sentence
         (generate_weather_speech ''Paris'' 18 16.5 ''light rain'' [cool_line, umbrella_line] False)
   \<and> format_1f 18 = ''18.0'' \<and> format_1f 16.5 = ''16.5''"
proof -
  have w: "indoor \<longrightarrow>
        py_in warning_sentence
          (generate_weather_speech city temp feels_like condition advice_list indoor)"
    using warning_present by simp
  have p: "\<not> py_in warning_sentence
         (generate_weather_speech ''Paris'' 18 16.5 ''light rain'' [cool_line, umbrella_line] False)"
    unfolding paris_example by (rule paris_no_warning)
  show ?thesis
    using generate_weather_speech_sentences [of city temp feels_like condition advice_list indoor]
      format_1f_rounds [of temp] format_1f_rounds [of feels_like]
      py_join_space_closed_form [of advice_list] w paris_example p format_examples(1,2)
    by blast
qed

theorem speech_sentences_in_order_witness:
  "generate_weather_speech ''Oslo'' (-15) (-20.25) ''Heavy Snow''
       [extreme_cold_line, snow_line, humidity_line] True =
     ''Weather report for Oslo. The current temperature is -15.0 degrees Celsius, but it feels like -20.2 degrees. The weather condition is Heavy Snow. Warning! Weather conditions are extreme. It is strongly advised to stay indoors. Here's what you should wear. It's extremely cold outside. Wear heavy winter coat, thermal layers, gloves, scarf, and winter hat. Wear waterproof boots and be careful of slippery surfaces. High humidity today. Wear moisture-wicking fabrics to stay comfortable.''
   \<and> py_in warning_sentence
       (generate_weather_speech ''Oslo'' (-15) (-20.25) ''Heavy Snow''
          [extreme_cold_line, snow_line, humidity_line] True)"
proof -
  have "generate_weather_speech ''Oslo'' (-15) (-20.25) ''Heavy Snow''
       [extreme_cold_line, snow_line, humidity_line] True =
     ''Weather report for Oslo. The current temperature is -15.0 degrees Celsius, but it feels like -20.2 degrees. The weather condition is Heavy Snow. Warning! Weather conditions are extreme. It is strongly advised to stay indoors. Here's what you should wear. It's extremely cold outside. Wear heavy winter coat, thermal layers, gloves, scarf, and winter hat. Wear waterproof boots and be careful of slippery surfaces. High humidity today. Wear moisture-wicking fabrics to stay comfortable.''"
    by (simp add: generate_weather_speech_def Let_def format_1f_def round_half_even_def
        decimal.simps digit_char_def wear_sentence_def warning_sentence_def
        extreme_cold_line_def snow_line_def humidity_line_def)
  moreover have "py_in warning_sentence
       (generate_weather_speech ''Oslo'' (-15) (-20.25) ''Heavy Snow''
          [extreme_cold_line, snow_line, humidity_line] True)"
    using speech_sentences_in_order [of "''Oslo''" "-15" "-20.25" "''Heavy Snow''"
        "[extreme_cold_line, snow_line, humidity_line]" True]
    by blast
  ultimately show ?thesis by blast
qed

text \<open>
  Claim C8. On its declared domain the function raises nothing. In the embedding where each
  comparison, the \<^verbatim>\<open>.lower()\<close> call and each \<^verbatim>\<open>in\<close> test can raise, a call with
  a float or an int for the temperature, a string of any Unicode code points for the
  condition and an int for the humidity returns a result: in every world, and whatever
  \<^verbatim>\<open>str.lower\<close> makes of the text. The witness runs it on a description of two Chinese
  characters with -100 degrees and a humidity of -5, and on the empty description with
  1000 degrees and a humidity of a million.
\<close>
theorem get_clothing_advice_total:
  "(\<exists>r. get_clothing_advice_py lower (PyFloat t) (PyStr c) (PyInt h) w = (Inr r, w)) \<and>
   (\<exists>r. get_clothing_advice_py lower (PyInt i) (PyStr c) (PyInt h) w = (Inr r, w))"
proof
  have "py_number (PyFloat t) = Some t" and h: "py_number (PyInt h) = Some (of_int h)"
    by simp_all
  then obtain r where "get_clothing_advice_py lower (PyFloat t) (PyStr c) (PyInt h) = py_return r"
    using get_clothing_advice_py_returns by blast
  then show "\<exists>r. get_clothing_advice_py lower (PyFloat t) (PyStr c) (PyInt h) w = (Inr r, w)"
    by (simp add: py_return_def)
  have "py_number (PyInt i) = Some (of_int i)" by simp
  with h obtain q where "get_clothing_advice_py lower (PyInt i) (PyStr c) (PyInt h) = py_return q"
    using get_clothing_advice_py_returns by blast
  then show "\<exists>r. get_clothing_advice_py lower (PyInt i) (PyStr c) (PyInt h) w = (Inr r, w)"
    by (simp add: py_return_def)
qed

theorem get_clothing_advice_total_witness:
  "get_clothing_advice_py (\<lambda>s. s) (PyFloat (-100)) (PyStr [38632, 22825]) (PyInt (-5))
       \<lparr>session_state = Map.empty, clock = 0\<rparr>
     = (Inr ([extreme_cold_line], True), \<lparr>session_state = Map.empty, clock = 0\<rparr>) \<and>
   get_clothing_advice_py (\<lambda>s. s) (PyInt 1000) (PyStr []) (PyInt 1000000)
       \<lparr>session_state = Map.empty, clock = 0\<rparr>
     = (Inr ([extreme_heat_line, humidity_line], True), \<lparr>session_state = Map.empty, clock = 0\<rparr>)"
proof -
  have a: "get_clothing_advice_py (\<lambda>s. s) (PyFloat (-100)) (PyStr [38632, 22825]) (PyInt (-5))
      = py_return ([extreme_cold_line], True)"
    by (simp add: get_clothing_advice_py_def temperature_rule_py_number condition_rule_py_str
        humidity_rule_py_int py_bind_return temperature_rule_def humidity_rule_def
        initial_state_def ustr_def)
  have b: "get_clothing_advice_py (\<lambda>s. s) (PyInt 1000) (PyStr []) (PyInt 1000000)
      = py_return ([extreme_heat_line, humidity_line], True)"
    by (simp add: get_clothing_advice_py_def temperature_rule_py_number condition_rule_py_str
        humidity_rule_py_int py_bind_return temperature_rule_def humidity_rule_def
        initial_state_def ustr_def)
  show ?thesis
    using get_clothing_advice_total
        [of "\<lambda>s. s" "-100" "[38632, 22825]" "-5" "\<lparr>session_state = Map.empty, clock = 0\<rparr>" 1000]
      get_clothing_advice_total
        [of "\<lambda>s. s" 0 "[]" 1000000 "\<lparr>session_state = Map.empty, clock = 0\<rparr>" 1000]
    by (simp add: a b py_return_def)
qed

text \<open>
  Claim C9. Both functions are deterministic. In the embedding where an operation may read
  or change the session state and the clock, a call of either function, with any arguments,
  returns or raises the same in any two worlds and leaves the world as it found it; so
  \<open>n\<close> calls in a row with the same arguments give \<open>n\<close> times the same outcome. On typed
  arguments that outcome is the value of the typed function of the claims above.
\<close>
theorem outputs_determined_by_arguments:
  "fst (get_clothing_advice_py lower temp condition humidity w) =
     fst (get_clothing_advice_py lower temp condition humidity w')
   \<and> snd (get_clothing_advice_py lower temp condition humidity w) = w
   \<and> fst (py_calls n (get_clothing_advice_py lower temp condition humidity) w) =
       replicate n (fst (get_clothing_advice_py lower temp condition humidity w'))
   \<and> fst (generate_weather_speech_py city t f cond lines indoor w) =
       fst (generate_weather_speech_py city t f cond lines indoor w')
   \<and> snd (generate_weather_speech_py city t f cond lines indoor w) = w
   \<and> fst (py_calls n (generate_weather_speech_py city t f cond lines indoor) w) =
       replicate n (fst (generate_weather_speech_py city t f cond lines indoor w'))
   \<and> (lower (ustr c8) = ustr (py_lower c8) \<longrightarrow>
        py_calls n (get_clothing_advice_py lower (PyFloat x) (PyStr (ustr c8)) (PyInt h)) w =
          (replicate n (Inr (get_clothing_advice x c8 h)), w))
   \<and> py_calls n
         (generate_weather_speech_py (ustr city8) (PyFloat x) (PyFloat y) (ustr cond8)
            (PyList (map (\<lambda>l. PyStr (ustr l)) lines8)) (PyBool flag)) w =
       (replicate n (Inr (ustr (generate_weather_speech city8 x y cond8 lines8 flag))), w)"
proof -
  let ?g = "get_clothing_advice_py lower temp condition humidity"
  let ?s = "generate_weather_speech_py city t f cond lines indoor"
  have g: "py_pure ?g" by (rule py_pure_get_clothing_advice_py)
  have s: "py_pure ?s" by (rule py_pure_generate_weather_speech_py)
  have 1: "?g w = (fst (?g w'), w)" using g by (rule py_pure_run)
  have 2: "?s w = (fst (?s w'), w)" using s by (rule py_pure_run)
  have 3: "py_calls n ?g w = (replicate n (fst (?g w')), w)" using g by (rule py_calls_pure)
  have 4: "py_calls n ?s w = (replicate n (fst (?s w')), w)" using s by (rule py_calls_pure)
  have 5: "py_calls n (get_clothing_advice_py lower (PyFloat x) (PyStr (ustr c8)) (PyInt h)) w =
          (replicate n (Inr (get_clothing_advice x c8 h)), w)"
    if "lower (ustr c8) = ustr (py_lower c8)"
    using py_calls_pure [OF py_pure_get_clothing_advice_py, of n lower "PyFloat x" "PyStr (ustr c8)"
        "PyInt h" w w] that
    by (simp add: get_clothing_advice_py_agrees py_return_def)
  have 6: "py_calls n
         (generate_weather_speech_py (ustr city8) (PyFloat x) (PyFloat y) (ustr cond8)
            (PyList (map (\<lambda>l. PyStr (ustr l)) lines8)) (PyBool flag)) w =
       (replicate n (Inr (ustr (generate_weather_speech city8 x y cond8 lines8 flag))), w)"
    using py_calls_pure [OF py_pure_generate_weather_speech_py, of n "ustr city8" "PyFloat x"
        "PyFloat y" "ustr cond8" "PyList (map (\<lambda>l. PyStr (ustr l)) lines8)" "PyBool flag" w w]
    by (simp add: generate_weather_speech_py_agrees py_return_def)
  from 1 have a: "fst (?g w) = fst (?g w')" and b: "snd (?g w) = w" by simp_all
  from 2 have c: "fst (?s w) = fst (?s w')" and d: "snd (?s w) = w" by simp_all
  from 3 have e: "fst (py_calls n ?g w) = replicate n (fst (?g w'))" by simp
  from 4 have f: "fst (py_calls n ?s w) = replicate n (fst (?s w'))" by simp
  from a b c d e f 5 6 show ?thesis by blast
qed

theorem outputs_determined_by_arguments_witness:
  "(\<lambda>s. s) (ustr ''clear'') = ustr (py_lower ''clear'') \<and>
   py_calls 3 (get_clothing_advice_py (\<lambda>s. s) (PyFloat 22) (PyStr (ustr ''clear'')) (PyInt 50))
       \<lparr>session_state = [''last_city'' \<mapsto> PyStr (ustr ''Paris'')], clock = 1000\<rparr>
     = ([Inr ([pleasant_line], False), Inr ([pleasant_line], False), Inr ([pleasant_line], False)],
        \<lparr>session_state = [''last_city'' \<mapsto> PyStr (ustr ''Paris'')], clock = 1000\<rparr>) \<and>
   fst (get_clothing_advice_py (\<lambda>s. s) (PyFloat 22) (PyStr (ustr ''clear'')) (PyInt 50)
          \<lparr>session_state = Map.empty, clock = 0\<rparr>)
     = fst (get_clothing_advice_py (\<lambda>s. s) (PyFloat 22) (PyStr (ustr ''clear'')) (PyInt 50)
          \<lparr>session_state = [''last_city'' \<mapsto> PyStr (ustr ''Paris'')], clock = 1000\<rparr>) \<and>
   fst (generate_weather_speech_py (ustr ''Paris'') (PyFloat 22) (PyFloat 21.5) (ustr ''clear'')
          (PyList [PyStr (ustr pleasant_line)]) (PyBool False)
          \<lparr>session_state = Map.empty, clock = 0\<rparr>)
     = fst (generate_weather_speech_py (ustr ''Paris'') (PyFloat 22) (PyFloat 21.5) (ustr ''clear'')
          (PyList [PyStr (ustr pleasant_line)]) (PyBool False)
          \<lparr>session_state = [''last_city'' \<mapsto> PyStr (ustr ''Paris'')], clock = 1000\<rparr>)"
proof -
  let ?w0 = "\<lparr>session_state = Map.empty, clock = 0\<rparr>"
  let ?w1 = "\<lparr>session_state = [''last_city'' \<mapsto> PyStr (ustr ''Paris'')], clock = 1000\<rparr>"
  have l: "(\<lambda>s. s) (ustr ''clear'') = ustr (py_lower ''clear'')"
    by (simp add: clear_lower)
  have e: "get_clothing_advice 22 ''clear'' 50 = ([pleasant_line], False)"
    by (simp add: get_clothing_advice_def temperature_rule_def condition_rule_def
        humidity_rule_def clear_lower initial_state_def)
  note t = outputs_determined_by_arguments
    [of "\<lambda>s. s" "PyFloat 22" "PyStr (ustr ''clear'')" "PyInt 50" ?w1 ?w0 3
      "ustr ''Paris''" "PyFloat 22" "PyFloat 21.5" "ustr ''clear''"
      "PyList [PyStr (ustr pleasant_line)]" "PyBool False" "''clear''" 22 50
      "''Paris''" "21.5" "''clear''" "[pleasant_line]" False]
  from t l have
    "py_calls 3 (get_clothing_advice_py (\<lambda>s. s) (PyFloat 22) (PyStr (ustr ''clear'')) (PyInt 50)) ?w1
       = (replicate 3 (Inr (get_clothing_advice 22 ''clear'' 50)), ?w1)"
    by blast
  then have c: "py_calls 3
        (get_clothing_advice_py (\<lambda>s. s) (PyFloat 22) (PyStr (ustr ''clear'')) (PyInt 50)) ?w1
       = ([Inr ([pleasant_line], False), Inr ([pleasant_line], False),
           Inr ([pleasant_line], False)], ?w1)"
    by (simp only: e numeral_3_eq_3 replicate.simps)
  from t have g: "fst (get_clothing_advice_py (\<lambda>s. s) (PyFloat 22) (PyStr (ustr ''clear''))
        (PyInt 50) ?w0)
     = fst (get_clothing_advice_py (\<lambda>s. s) (PyFloat 22) (PyStr (ustr ''clear'')) (PyInt 50) ?w1)"
    by presburger
  from t have s: "fst (generate_weather_speech_py (ustr ''Paris'') (PyFloat 22) (PyFloat 21.5)
          (ustr ''clear'') (PyList [PyStr (ustr pleasant_line)]) (PyBool False) ?w0)
     = fst (generate_weather_speech_py (ustr ''Paris'') (PyFloat 22) (PyFloat 21.5)
          (ustr ''clear'') (PyList [PyStr (ustr pleasant_line)]) (PyBool False) ?w1)"
    by presburger
  from l c g s show ?thesis by blast
qed

text \<open>
  Claim C10. Whenever the returned flag is set, the advice lines explain it: the extreme-cold
  line or the extreme-heat line is at index 0, or the storm-warning line is at index 1.
\<close>
theorem stay_indoor_has_explaining_line:
  assumes "snd (get_clothing_advice t c h)"
  shows "fst (get_clothing_advice t c h) ! 0 = extreme_cold_line \<or>
         fst (get_clothing_advice t c h) ! 0 = extreme_heat_line \<or>
         (1 < length (fst (get_clothing_advice t c h)) \<and>
          fst (get_clothing_advice t c h) ! 1 = storm_line)"
proof -
  obtain l where a: "advice (temperature_rule t initial_state) = [l]"
    using temperature_rule_line [of t initial_state] by (auto simp: initial_state_simps)
  from assms consider "t < -10" | "35 \<le> t" | "stay_indoor (condition_rule c initial_state)"
    by (auto simp: get_clothing_advice_snd temperature_rule_flag initial_state_simps)
  then show ?thesis
  proof cases
    case 1
    then show ?thesis by (simp add: get_clothing_advice_fst temperature_rule_extreme)
  next
    case 2
    then show ?thesis by (simp add: get_clothing_advice_fst temperature_rule_extreme)
  next
    case 3
    then have "advice (condition_rule c initial_state) = [storm_line]"
      by (rule condition_rule_storm)
    then show ?thesis by (simp add: get_clothing_advice_fst a)
  qed
qed

theorem stay_indoor_has_explaining_line_witness:
  "snd (get_clothing_advice 20 ''Thunderstorm'' 50) \<and>
   fst (get_clothing_advice 20 ''Thunderstorm'' 50) ! 0 \<noteq> extreme_cold_line \<and>
   fst (get_clothing_advice 20 ''Thunderstorm'' 50) ! 0 \<noteq> extreme_heat_line \<and>
   1 < length (fst (get_clothing_advice 20 ''Thunderstorm'' 50)) \<and>
   fst (get_clothing_advice 20 ''Thunderstorm'' 50) ! 1 = storm_line"
proof -
  have v: "get_clothing_advice 20 ''Thunderstorm'' 50 = ([pleasant_line, storm_line], True)"
    by (simp add: get_clothing_advice_def temperature_rule_def condition_rule_def
        humidity_rule_def example_lower initial_state_def)
  then have s: "snd (get_clothing_advice 20 ''Thunderstorm'' 50)" by simp
  have n: "pleasant_line \<noteq> extreme_cold_line" "pleasant_line \<noteq> extreme_heat_line"
    using lines_distinct by (auto simp: temperature_lines_def)
  from stay_indoor_has_explaining_line [OF s] s n show ?thesis by (simp add: v)
qed

end
